theory Spec2Isabelle
  imports Main "HOL-Library.Sublist"
begin

section \<open>JavaScript values used by the repository assistant\<close>

text \<open>
  Strings are \<^typ>\<open>string\<close>, read as the text of the JavaScript string. The string
  functions below are exact on ASCII text: \<open>toLowerCase\<close> changes the letters
  \<open>A\<close> to \<open>Z\<close> and leaves every other character as it is, and the character
  classes \<open>\w\<close> and \<open>\s\<close> are their ASCII members. All keywords the program
  searches for are lower-case ASCII words.

  A field that may be absent is a \<open>jsstr\<close>: \<open>undefined\<close>, \<open>null\<close> or a string.
  \<open>truthy\<close> is the test JavaScript makes in \<open>if (v)\<close>, \<open>!v\<close>, \<open>v ? a : b\<close> and
  \<open>v || d\<close>; \<open>render\<close> is the coercion a template literal makes in \<open>${v}\<close>.
\<close>

datatype jsstr = Undefined | Null | Str string

fun truthy :: "jsstr \<Rightarrow> bool" where
  "truthy Undefined = False"
| "truthy Null = False"
| "truthy (Str s) = (s \<noteq> [])"

fun render :: "jsstr \<Rightarrow> string" where
  "render Undefined = ''undefined''"
| "render Null = ''null''"
| "render (Str s) = s"

text \<open>\<open>v || d\<close> for a string default \<open>d\<close>.\<close>

definition orElse :: "jsstr \<Rightarrow> string \<Rightarrow> jsstr" where
  "orElse v d = (if truthy v then v else Str d)"

subsection \<open>String.prototype.toLowerCase\<close>

definition toLowerCase_char :: "char \<Rightarrow> char" where
  "toLowerCase_char c =
     (if 65 \<le> (of_char c :: nat) \<and> (of_char c :: nat) \<le> 90
      then char_of ((of_char c :: nat) + 32) else c)"

definition toLowerCase :: "string \<Rightarrow> string" where
  "toLowerCase s = map toLowerCase_char s"

subsection \<open>String.prototype.includes\<close>

fun startsWith :: "string \<Rightarrow> string \<Rightarrow> bool" where
  "startsWith s [] = True"
| "startsWith [] (k # ks) = False"
| "startsWith (c # cs) (k # ks) = (c = k \<and> startsWith cs ks)"

fun String_includes :: "string \<Rightarrow> string \<Rightarrow> bool" where
  "String_includes [] k = (k = [])"
| "String_includes (c # cs) k = (startsWith (c # cs) k \<or> String_includes cs k)"

subsection \<open>Array.prototype.join and the decimal form of a count\<close>

fun join :: "string list \<Rightarrow> string \<Rightarrow> string" where
  "join [] sep = []"
| "join [x] sep = x"
| "join (x # y # ys) sep = x @ sep @ join (y # ys) sep"

definition digit :: "nat \<Rightarrow> char" where
  "digit d = char_of (48 + d)"

text \<open>
  The counts of a repository are non-negative integers, which a template literal prints
  in decimal.
\<close>

function Number_toString :: "nat \<Rightarrow> string" where
  "Number_toString n =
     (if n < 10 then [digit n] else Number_toString (n div 10) @ [digit (n mod 10)])"
  by pat_completeness auto
termination
  by (relation "measure id") auto

declare Number_toString.simps [simp del]

section \<open>The question classifier\<close>

definition technicalKeywords :: "string list" where
  "technicalKeywords =
     [''how'', ''implement'', ''code'', ''function'', ''class'', ''method'']"

definition statisticsKeywords :: "string list" where
  "statisticsKeywords = [''many'', ''count'', ''size'', ''number'', ''statistics'']"

definition analyzeQuestionType :: "string \<Rightarrow> string" where
  "analyzeQuestionType question =
     (let question = toLowerCase question in
      if list_ex (\<lambda>keyword. String_includes question keyword) technicalKeywords
      then ''technical''
      else if list_ex (\<lambda>keyword. String_includes question keyword) statisticsKeywords
      then ''statistics''
      else ''general'')"

section \<open>Repository data, answers and the GitHub client\<close>

text \<open>
  \<open>repoData\<close> holds the fields of the \<open>repos.get\<close> response that the program reads;
  \<open>repoInfo\<close> is the object \<open>{...repoData, languages, topics: topics.names}\<close>.
  The \<open>languages\<close> object is an association list in insertion order, so that
  \<open>Object.keys\<close> is the list of its first components.
\<close>

record repoData =
  description :: jsstr
  homepage :: jsstr
  language :: jsstr
  size' :: nat
  stargazers_count :: nat
  forks_count :: nat
  open_issues_count :: nat
  created_at :: string
  updated_at :: string
  full_name :: string
  has_pages :: bool

record repoInfo = repoData +
  languages :: "(string \<times> nat) list"
  topics :: "string list"

definition Object_keys :: "(string \<times> nat) list \<Rightarrow> string list" where
  "Object_keys obj = map fst obj"

record searchItem =
  name :: string
  path :: string
  html_url :: string

record relatedFile =
  name :: string
  path :: string
  url :: string

record answer =
  text' :: string
  relatedFiles :: "relatedFile list"
  suggestions :: "string list"

text \<open>A thrown \<open>Error\<close> object, with its \<open>message\<close>.\<close>

datatype js_error = Error (message: string)

text \<open>
  The client made by \<open>new Octokit({auth})\<close>: each method either rejects with an error
  or resolves to the part of the response the program reads (\<open>data\<close>, \<open>data.names\<close>,
  \<open>data.items\<close>). Every invocation of a method is one request to the external API and
  is appended to the log of requests, which the asynchronous functions pass along.
\<close>

record octokit =
  repos_get :: "string \<Rightarrow> string \<Rightarrow> js_error + repoData"
  repos_listLanguages :: "string \<Rightarrow> string \<Rightarrow> js_error + (string \<times> nat) list"
  repos_getAllTopics :: "string \<Rightarrow> string \<Rightarrow> js_error + string list"
  search_code :: "string \<Rightarrow> nat \<Rightarrow> js_error + searchItem list"

datatype api_call =
    Repos_get string string
  | Repos_listLanguages string string
  | Repos_getAllTopics string string
  | Search_code string nat

text \<open>
  What the program takes from its platform: the \<open>Octokit\<close> constructor and the
  locale's rendering \<open>new Date(s).toLocaleDateString()\<close> of a timestamp.
\<close>

record host =
  Octokit :: "jsstr \<Rightarrow> octokit"
  toLocaleDateString :: "string \<Rightarrow> string"

section \<open>Fetching the repository\<close>

definition getRepositoryInfo ::
  "octokit \<Rightarrow> string \<Rightarrow> string \<Rightarrow> api_call list \<Rightarrow> (js_error + repoInfo) \<times> api_call list" where
  "getRepositoryInfo octokit owner repo log =
     (let log1 = log @ [Repos_get owner repo] in
      case repos_get octokit owner repo of
        Inl e \<Rightarrow> (Inl e, log1)
      | Inr repoData \<Rightarrow>
          (let log2 = log1 @ [Repos_listLanguages owner repo] in
           case repos_listLanguages octokit owner repo of
             Inl e \<Rightarrow> (Inl e, log2)
           | Inr langs \<Rightarrow>
               (let log3 = log2 @ [Repos_getAllTopics owner repo] in
                case repos_getAllTopics octokit owner repo of
                  Inl e \<Rightarrow> (Inl e, log3)
                | Inr names \<Rightarrow>
                    (Inr (repoData.extend repoData
                           (repoInfo.fields langs names)), log3))))"

section \<open>The answer generators\<close>

definition generateGeneralAnswer :: "repoInfo \<Rightarrow> string \<Rightarrow> string" where
  "generateGeneralAnswer repoInfo question =
     (if String_includes question ''about''
      then ''This repository is '' @ render (orElse (description repoInfo) ''a project'')
           @ '' written primarily in '' @ render (language repoInfo) @ ''. ''
           @ (if truthy (homepage repoInfo)
              then ''You can find more information at '' @ render (homepage repoInfo) @ ''.''
              else [])
           @ '' ''
           @ (if length (topics repoInfo) > 0
              then ''It'' @ [CHR 0x27] @ ''s tagged with the following topics: ''
                   @ join (topics repoInfo) '', '' @ ''.''
              else [])
      else ''I found some general information about the repository: ''
           @ render (description repoInfo))"

text \<open>\<open>question.replace(/[^\w\s]/g, ' ')\<close>.\<close>

definition is_word :: "char \<Rightarrow> bool" where
  "is_word c =
     (let n = (of_char c :: nat) in
      (48 \<le> n \<and> n \<le> 57) \<or> (65 \<le> n \<and> n \<le> 90) \<or> (97 \<le> n \<and> n \<le> 122) \<or> n = 95)"

definition is_space :: "char \<Rightarrow> bool" where
  "is_space c = (let n = (of_char c :: nat) in (9 \<le> n \<and> n \<le> 13) \<or> n = 32)"

definition strip_punctuation :: "string \<Rightarrow> string" where
  "strip_punctuation s = map (\<lambda>c. if is_word c \<or> is_space c then c else CHR '' '') s"

definition findTechnicalAnswer ::
  "octokit \<Rightarrow> repoInfo \<Rightarrow> string \<Rightarrow> api_call list
     \<Rightarrow> (js_error + string \<times> relatedFile list) \<times> api_call list" where
  "findTechnicalAnswer octokit repoInfo question log =
     (let q = strip_punctuation question @ '' repo:'' @ full_name repoInfo;
          log1 = log @ [Search_code q 5] in
      case search_code octokit q 5 of
        Inl e \<Rightarrow> (Inl e, log1)
      | Inr items \<Rightarrow>
          (let files = map (\<lambda>item. \<lparr>name = searchItem.name item,
                                     path = searchItem.path item,
                                     url = html_url item\<rparr>) items;
               text = (if length files > 0
                       then ''I found some relevant files that might help answer your question:''
                            @ [CHR 0x0A, CHR 0x0A]
                            @ join (map (\<lambda>f. ''- '' @ path f @ '' ('' @ url f @ '')'') files)
                                [CHR 0x0A]
                       else ''I could not find any relevant code files for your technical question.'')
           in (Inr (text, files), log1)))"

definition generateStatisticsAnswer :: "host \<Rightarrow> repoInfo \<Rightarrow> string \<Rightarrow> string" where
  "generateStatisticsAnswer h repoInfo question =
     (let stats_size = size' repoInfo;
          stats_stars = stargazers_count repoInfo;
          stats_forks = forks_count repoInfo;
          stats_issues = open_issues_count repoInfo;
          stats_languages = length (Object_keys (languages repoInfo));
          stats_created = toLocaleDateString h (created_at repoInfo);
          stats_updated = toLocaleDateString h (updated_at repoInfo)
      in
      if String_includes question ''language''
      then ''The repository uses '' @ Number_toString stats_languages @ '' languages: ''
           @ join (Object_keys (languages repoInfo)) '', ''
      else if String_includes question ''popular'' \<or> String_includes question ''stars''
      then ''The repository has '' @ Number_toString stats_stars @ '' stars and ''
           @ Number_toString stats_forks @ '' forks''
      else if String_includes question ''issue''
      then ''There are currently '' @ Number_toString stats_issues @ '' open issues''
      else ''Repository statistics:'' @ [CHR 0x0A]
           @ ''- Size: '' @ Number_toString stats_size @ ''KB'' @ [CHR 0x0A]
           @ ''- Stars: '' @ Number_toString stats_stars @ [CHR 0x0A]
           @ ''- Forks: '' @ Number_toString stats_forks @ [CHR 0x0A]
           @ ''- Open Issues: '' @ Number_toString stats_issues @ [CHR 0x0A]
           @ ''- Created: '' @ stats_created @ [CHR 0x0A]
           @ ''- Last Updated: '' @ stats_updated)"

section \<open>Suggestions\<close>

definition generateSuggestions :: "repoInfo \<Rightarrow> string \<Rightarrow> jsstr \<Rightarrow> string list" where
  "generateSuggestions repoInfo question context =
     (let suggestions = [];
          suggestions =
            (if \<not> truthy (description repoInfo)
             then suggestions @
               [''Add a repository description to help users understand the project better'']
             else suggestions);
          suggestions =
            (if \<not> truthy (homepage repoInfo) \<and> \<not> has_pages repoInfo
             then suggestions @ [''Consider adding a homepage or enabling GitHub Pages'']
             else suggestions);
          suggestions =
            (if length (topics repoInfo) = 0
             then suggestions @ [''Add repository topics to improve discoverability'']
             else suggestions);
          suggestions =
            (if open_issues_count repoInfo > 20
             then suggestions @
               [''Consider addressing some open issues to improve repository health'']
             else suggestions)
      in suggestions)"

section \<open>Assembling the answer\<close>

definition generateAnswer ::
  "host \<Rightarrow> octokit \<Rightarrow> repoInfo \<Rightarrow> string \<Rightarrow> jsstr \<Rightarrow> api_call list
     \<Rightarrow> (js_error + answer) \<times> api_call list" where
  "generateAnswer h octokit repoInfo question context log =
     (let answer = \<lparr>text' = [], relatedFiles = [], suggestions = []\<rparr>;
          questionType = analyzeQuestionType question;
          switched =
            (if questionType = ''general''
             then (Inr (answer\<lparr>text' := generateGeneralAnswer repoInfo question\<rparr>), log)
             else if questionType = ''technical''
             then (case findTechnicalAnswer octokit repoInfo question log of
                     (Inl e, log1) \<Rightarrow> (Inl e, log1)
                   | (Inr (text, files), log1) \<Rightarrow>
                       (Inr (answer\<lparr>text' := text, relatedFiles := files\<rparr>), log1))
             else if questionType = ''statistics''
             then (Inr (answer\<lparr>text' := generateStatisticsAnswer h repoInfo question\<rparr>), log)
             else (Inr (answer\<lparr>text' :=
                     ''I apologize, but I cannot understand the question type.''\<rparr>), log))
      in case switched of
           (Inl e, log1) \<Rightarrow> (Inl e, log1)
         | (Inr answer, log1) \<Rightarrow>
             (Inr (if truthy context
                   then answer\<lparr>suggestions := generateSuggestions repoInfo question context\<rparr>
                   else answer), log1))"

section \<open>The entry point\<close>

record params =
  owner :: string
  repo :: string
  question :: string
  context' :: jsstr

record userSettings =
  githubToken :: jsstr

text \<open>
  The result is what the promise settles to (\<open>Inl\<close> the thrown error) together with the
  requests made to the external API, in order. The \<open>catch\<close> block sees every error
  thrown inside the \<open>try\<close> block and throws a new one built from its message.
\<close>

definition answer_repository_question ::
  "host \<Rightarrow> params \<Rightarrow> userSettings \<Rightarrow> (js_error + answer) \<times> api_call list" where
  "answer_repository_question h params userSettings =
     (if \<not> truthy (githubToken userSettings)
      then (Inl (Error ''GitHub token is required''), [])
      else
        (let octokit = Octokit h (githubToken userSettings);
             tried =
               (case getRepositoryInfo octokit (owner params) (repo params) [] of
                  (Inl e, log1) \<Rightarrow> (Inl e, log1)
                | (Inr repoInfo, log1) \<Rightarrow>
                    generateAnswer h octokit repoInfo (question params) (context' params) log1)
         in case tried of
              (Inl error, log1) \<Rightarrow>
                (Inl (Error (''Failed to answer question: '' @ message error)), log1)
            | (Inr answer, log1) \<Rightarrow> (Inr answer, log1)))"

section \<open>The sentences of the statistics answer\<close>

text \<open>
  The four texts the statistics generator chooses from, named so that the dispatch can be
  stated apart from the wording.
\<close>

definition languageSentence :: "repoInfo \<Rightarrow> string" where
  "languageSentence r =
     ''The repository uses '' @ Number_toString (length (languages r)) @ '' languages: ''
     @ join (map fst (languages r)) '', ''"

definition starsForksSentence :: "repoInfo \<Rightarrow> string" where
  "starsForksSentence r =
     ''The repository has '' @ Number_toString (stargazers_count r) @ '' stars and ''
     @ Number_toString (forks_count r) @ '' forks''"

definition openIssuesSentence :: "repoInfo \<Rightarrow> string" where
  "openIssuesSentence r =
     ''There are currently '' @ Number_toString (open_issues_count r) @ '' open issues''"

definition fullSnapshot :: "host \<Rightarrow> repoInfo \<Rightarrow> string" where
  "fullSnapshot h r =
     join [''Repository statistics:'',
           ''- Size: '' @ Number_toString (size' r) @ ''KB'',
           ''- Stars: '' @ Number_toString (stargazers_count r),
           ''- Forks: '' @ Number_toString (forks_count r),
           ''- Open Issues: '' @ Number_toString (open_issues_count r),
           ''- Created: '' @ toLocaleDateString h (created_at r),
           ''- Last Updated: '' @ toLocaleDateString h (updated_at r)] [CHR 0x0A]"

text \<open>
  The dispatch as section 4.5 of the specification words it: a substring test on the
  lower-cased question.
\<close>

definition spec_generateStatistics :: "host \<Rightarrow> repoInfo \<Rightarrow> string \<Rightarrow> string" where
  "spec_generateStatistics h r q =
     (let lowered = toLowerCase q in
      if sublist ''language'' lowered then languageSentence r
      else if sublist ''popular'' lowered \<or> sublist ''stars'' lowered then starsForksSentence r
      else if sublist ''issue'' lowered then openIssuesSentence r
      else fullSnapshot h r)"

section \<open>Example data\<close>

text \<open>
  A small repository, a client whose requests all succeed, and two clients with one
  failing request each, used to run the program on concrete inputs.
\<close>

definition example_items :: "searchItem list" where
  "example_items =
     [\<lparr>searchItem.name = ''main.go'', searchItem.path = ''cmd/main.go'', html_url = ''https://github.com/o/r/blob/m/cmd/main.go''\<rparr>,
      \<lparr>searchItem.name = ''util.go'', searchItem.path = ''util.go'', html_url = ''https://github.com/o/r/blob/m/util.go''\<rparr>]"

definition example_repoData :: repoData where
  "example_repoData =
     \<lparr>description = Null, homepage = Null, language = Str ''Go'', size' = 120,
      stargazers_count = 42, forks_count = 7, open_issues_count = 3,
      created_at = ''2020-01-01T00:00:00Z'', updated_at = ''2021-06-30T00:00:00Z'',
      full_name = ''o/r'', has_pages = False\<rparr>"

definition example_repo :: repoInfo where
  "example_repo = repoData.extend example_repoData (repoInfo.fields [(''Go'', 10), (''C'', 5)] [])"

definition example_octokit :: octokit where
  "example_octokit =
     \<lparr>repos_get = (\<lambda>ow rp. Inr example_repoData),
      repos_listLanguages = (\<lambda>ow rp. Inr [(''Go'', 10), (''C'', 5)]),
      repos_getAllTopics = (\<lambda>ow rp. Inr []),
      search_code = (\<lambda>q n. Inr example_items)\<rparr>"

definition example_host :: host where
  "example_host = \<lparr>Octokit = (\<lambda>auth. example_octokit), toLocaleDateString = take 10\<rparr>"

definition notFound_host :: host where
  "notFound_host =
     example_host\<lparr>Octokit :=
       (\<lambda>auth. example_octokit\<lparr>repos_get := (\<lambda>ow rp. Inl (Error ''Not Found''))\<rparr>)\<rparr>"

definition searchDown_host :: host where
  "searchDown_host =
     example_host\<lparr>Octokit :=
       (\<lambda>auth. example_octokit\<lparr>search_code := (\<lambda>q n. Inl (Error ''Validation Failed''))\<rparr>)\<rparr>"

definition example_params :: "string \<Rightarrow> jsstr \<Rightarrow> params" where
  "example_params q c = \<lparr>owner = ''o'', repo = ''r'', question = q, context' = c\<rparr>"

definition example_settings :: userSettings where
  "example_settings = \<lparr>githubToken = Str ''ghp_example''\<rparr>"

section \<open>Facts about the string functions\<close>

lemma startsWith_iff: "startsWith s k \<longleftrightarrow> (\<exists>t. s = k @ t)"
  by (induction s k rule: startsWith.induct) auto

lemma includes_iff: "String_includes s k \<longleftrightarrow> (\<exists>p t. s = p @ k @ t)"
proof (induction s)
  case Nil
  then show ?case by auto
next
  case (Cons c cs)
  show ?case
  proof
    assume "String_includes (c # cs) k"
    then consider "startsWith (c # cs) k" | "String_includes cs k" by auto
    then show "\<exists>p t. c # cs = p @ k @ t"
    proof cases
      case 1
      then obtain t where "c # cs = k @ t" by (auto simp: startsWith_iff)
      then have "c # cs = [] @ k @ t" by simp
      then show ?thesis by blast
    next
      case 2
      then obtain p t where "cs = p @ k @ t" using Cons.IH by auto
      then have "c # cs = (c # p) @ k @ t" by simp
      then show ?thesis by blast
    qed
  next
    assume "\<exists>p t. c # cs = p @ k @ t"
    then obtain p t where pt: "c # cs = p @ k @ t" by blast
    show "String_includes (c # cs) k"
    proof (cases p)
      case Nil
      with pt have "startsWith (c # cs) k" by (auto simp: startsWith_iff)
      then show ?thesis by simp
    next
      case (Cons a p')
      with pt have "cs = p' @ k @ t" by simp
      then have "String_includes cs k" using Cons.IH by blast
      then show ?thesis by simp
    qed
  qed
qed

lemma includes_sublist: "String_includes s k \<longleftrightarrow> sublist k s"
  by (simp add: includes_iff sublist_def)

lemma Number_toString_7: "Number_toString 7 = ''7''"
  by code_simp

lemma Number_toString_42: "Number_toString 42 = ''42''"
  by code_simp

lemma join_mem_sublist: "x \<in> set xs \<Longrightarrow> sublist x (join xs sep)"
proof (induction xs sep rule: join.induct)
  case (1 sep)
  then show ?case by simp
next
  case (2 x sep)
  then show ?case by simp
next
  case (3 y z ys sep)
  show ?case
  proof (cases "x = y")
    case True
    have "join (y # z # ys) sep = [] @ y @ (sep @ join (z # ys) sep)" by simp
    then show ?thesis unfolding True sublist_def by blast
  next
    case False
    with 3 have "sublist x (join (z # ys) sep)" by simp
    then obtain p t where "join (z # ys) sep = p @ x @ t"
      unfolding sublist_def by blast
    then have "join (y # z # ys) sep = (y @ sep @ p) @ x @ t" by simp
    then show ?thesis unfolding sublist_def by blast
  qed
qed

section \<open>Facts about the asynchronous functions\<close>

lemma getRepositoryInfo_fails_iff:
  "fst (getRepositoryInfo okt ow rp lg) = Inl e \<longleftrightarrow>
     repos_get okt ow rp = Inl e
     \<or> (\<exists>d. repos_get okt ow rp = Inr d
          \<and> (repos_listLanguages okt ow rp = Inl e
             \<or> (\<exists>l. repos_listLanguages okt ow rp = Inr l
                  \<and> repos_getAllTopics okt ow rp = Inl e)))"
  by (auto simp: getRepositoryInfo_def Let_def split: sum.splits)

lemma generateAnswer_suggestions:
  "generateAnswer h okt r q c lg = (Inr a, lg') \<Longrightarrow>
   suggestions a = (if truthy c then generateSuggestions r q c else [])"
  by (auto simp: generateAnswer_def Let_def split: if_splits prod.splits sum.splits)

lemma generateAnswer_relatedFiles:
  assumes "generateAnswer h okt r q c lg = (Inr a, lg')" and "relatedFiles a \<noteq> []"
  shows "analyzeQuestionType q = ''technical''
    \<and> (\<exists>items. search_code okt (strip_punctuation q @ '' repo:'' @ full_name r) 5 = Inr items
          \<and> items \<noteq> []
          \<and> relatedFiles a = map (\<lambda>item. \<lparr>name = searchItem.name item,
               path = searchItem.path item, url = html_url item\<rparr>) items
          \<and> lg' = lg @ [Search_code (strip_punctuation q @ '' repo:'' @ full_name r) 5])"
  using assms
  by (auto simp: generateAnswer_def findTechnicalAnswer_def Let_def
      split: if_splits prod.splits sum.splits)

lemma generateAnswer_search_fails:
  assumes "analyzeQuestionType q = ''technical''"
    and "search_code okt (strip_punctuation q @ '' repo:'' @ full_name r) 5 = Inl e"
  shows "fst (generateAnswer h okt r q c lg) = Inl e"
  using assms by (simp add: generateAnswer_def findTechnicalAnswer_def Let_def)

lemma generateAnswer_general:
  assumes "analyzeQuestionType q = ''general''"
  shows "generateAnswer h okt r q c lg =
    (Inr \<lparr>text' = generateGeneralAnswer r q, relatedFiles = [],
          suggestions = (if truthy c then generateSuggestions r q c else [])\<rparr>, lg)"
  using assms by (simp add: generateAnswer_def Let_def)

lemma answer_repository_question_ok:
  assumes "answer_repository_question h ps us = (Inr a, lg)"
  shows "truthy (githubToken us) \<and>
    (\<exists>r lg1. getRepositoryInfo (Octokit h (githubToken us)) (owner ps) (repo ps) [] = (Inr r, lg1)
       \<and> generateAnswer h (Octokit h (githubToken us)) r (question ps) (context' ps) lg1
           = (Inr a, lg))"
  using assms
  by (auto simp: answer_repository_question_def Let_def split: if_splits prod.splits sum.splits)

section \<open>The classifier\<close>

text \<open>
  Claim C1. For every question, the classifier lower-cases the question and answers
  \<open>technical\<close> if one of how, implement, code, function, class, method is a substring of
  it; otherwise \<open>statistics\<close> if one of many, count, size, number, statistics is;
  otherwise \<open>general\<close>. A question with keywords of both sets is therefore
  \<open>technical\<close>, and the result is always one of the three names.
\<close>

theorem analyzeQuestionType_classifies:
  "analyzeQuestionType q =
     (if \<exists>k \<in> set [''how'', ''implement'', ''code'', ''function'', ''class'', ''method''].
           sublist k (toLowerCase q)
      then ''technical''
      else if \<exists>k \<in> set [''many'', ''count'', ''size'', ''number'', ''statistics''].
           sublist k (toLowerCase q)
      then ''statistics''
      else ''general'')
   \<and> analyzeQuestionType q \<in> {''technical'', ''statistics'', ''general''}"
  unfolding analyzeQuestionType_def Let_def list_ex_iff technicalKeywords_def
    statisticsKeywords_def includes_sublist
  by simp

text \<open>
  The question \<open>How many stars?\<close> has a keyword of each set (how, many) and is
  classified \<open>technical\<close>.
\<close>

theorem analyzeQuestionType_classifies_witness:
  "(\<exists>k \<in> set [''how'', ''implement'', ''code'', ''function'', ''class'', ''method''].
       sublist k (toLowerCase ''How many stars?''))
   \<and> (\<exists>k \<in> set [''many'', ''count'', ''size'', ''number'', ''statistics''].
       sublist k (toLowerCase ''How many stars?''))
   \<and> analyzeQuestionType ''How many stars?'' = ''technical''"
proof -
  have "String_includes (toLowerCase ''How many stars?'') ''how''"
    by code_simp
  then have tech:
    "\<exists>k \<in> set [''how'', ''implement'', ''code'', ''function'', ''class'', ''method''].
       sublist k (toLowerCase ''How many stars?'')"
    by (simp add: includes_sublist)
  have "String_includes (toLowerCase ''How many stars?'') ''many''"
    by code_simp
  then have stat:
    "\<exists>k \<in> set [''many'', ''count'', ''size'', ''number'', ''statistics''].
       sublist k (toLowerCase ''How many stars?'')"
    by (simp add: includes_sublist)
  from tech stat analyzeQuestionType_classifies [of "''How many stars?''"]
  show ?thesis by simp
qed

section \<open>The statistics answer\<close>

text \<open>
  Claim C2, as the specification states it: the statistics generator dispatches on the
  lower-cased question. The program tests the question as it was given: the question
  \<open>Number of STARS\<close> is classified \<open>statistics\<close> and, lower-cased, contains
  \<open>stars\<close>, but the generator answers with the full snapshot.
\<close>

theorem generateStatisticsAnswer_not_case_insensitive:
  "generateStatisticsAnswer example_host example_repo ''Number of STARS''
     \<noteq> spec_generateStatistics example_host example_repo ''Number of STARS''"
  by code_simp

text \<open>
  Claim C2, amended. For every question and repository, the statistics generator
  dispatches by a case-sensitive substring test on the question as given, first match
  wins: \<open>language\<close> gives the language-count sentence; else \<open>popular\<close> or \<open>stars\<close>
  gives the stars and forks sentence; else \<open>issue\<close> gives the open-issue sentence; else
  the full multi-line snapshot.
\<close>

theorem generateStatisticsAnswer_dispatch:
  "generateStatisticsAnswer h r q =
     (if sublist ''language'' q then languageSentence r
      else if sublist ''popular'' q \<or> sublist ''stars'' q then starsForksSentence r
      else if sublist ''issue'' q then openIssuesSentence r
      else fullSnapshot h r)"
  by (simp add: generateStatisticsAnswer_def includes_sublist languageSentence_def
      starsForksSentence_def openIssuesSentence_def fullSnapshot_def Object_keys_def)

text \<open>
  The dispatch theorem at four questions, one for each branch.
\<close>

theorem generateStatisticsAnswer_dispatch_witness:
  "sublist ''language'' ''Which language?''
   \<and> generateStatisticsAnswer example_host example_repo ''Which language?''
       = ''The repository uses 2 languages: Go, C''
   \<and> \<not> sublist ''language'' ''Is it popular?'' \<and> sublist ''popular'' ''Is it popular?''
   \<and> generateStatisticsAnswer example_host example_repo ''Is it popular?''
       = ''The repository has 42 stars and 7 forks''
   \<and> \<not> sublist ''language'' ''Open issues?'' \<and> \<not> sublist ''popular'' ''Open issues?''
   \<and> \<not> sublist ''stars'' ''Open issues?'' \<and> sublist ''issue'' ''Open issues?''
   \<and> generateStatisticsAnswer example_host example_repo ''Open issues?''
       = ''There are currently 3 open issues''
   \<and> \<not> sublist ''language'' ''Number of STARS'' \<and> \<not> sublist ''popular'' ''Number of STARS''
   \<and> \<not> sublist ''stars'' ''Number of STARS'' \<and> \<not> sublist ''issue'' ''Number of STARS''
   \<and> generateStatisticsAnswer example_host example_repo ''Number of STARS''
       = fullSnapshot example_host example_repo"
proof -
  have e: "\<not> sublist ''language'' ''Open issues?''" "\<not> sublist ''popular'' ''Open issues?''"
    "\<not> sublist ''stars'' ''Open issues?''" "sublist ''issue'' ''Open issues?''"
    by code_simp+
  have i: "openIssuesSentence example_repo = ''There are currently 3 open issues''"
    by code_simp
  have a: "sublist ''language'' ''Which language?''" by code_simp
  have b: "\<not> sublist ''language'' ''Is it popular?''" by code_simp
  have c: "sublist ''popular'' ''Is it popular?''" by code_simp
  have d: "\<not> sublist ''language'' ''Number of STARS''" "\<not> sublist ''popular'' ''Number of STARS''"
    "\<not> sublist ''stars'' ''Number of STARS''" "\<not> sublist ''issue'' ''Number of STARS''"
    by code_simp+
  have l: "languageSentence example_repo = ''The repository uses 2 languages: Go, C''"
    by code_simp
  have s: "starsForksSentence example_repo = ''The repository has 42 stars and 7 forks''"
    by code_simp
  from a b c d e i l s
    generateStatisticsAnswer_dispatch [of example_host example_repo "''Which language?''"]
    generateStatisticsAnswer_dispatch [of example_host example_repo "''Open issues?''"]
    generateStatisticsAnswer_dispatch [of example_host example_repo "''Is it popular?''"]
    generateStatisticsAnswer_dispatch [of example_host example_repo "''Number of STARS''"]
  show ?thesis by simp
qed

text \<open>
  Claim C8. For the question \<open>How many stars?\<close> and a repository with 42 stars and 7
  forks, the statistics generator returns exactly the stars and forks sentence with 42
  and 7 in it, whatever the size, the issue count and the dates are; none of them is in
  the text.
\<close>

theorem generateStatisticsAnswer_stars_example:
  "(let t = generateStatisticsAnswer h (r\<lparr>stargazers_count := 42, forks_count := 7\<rparr>)
              ''How many stars?''
    in t = ''The repository has 42 stars and 7 forks''
       \<and> \<not> sublist ''Size'' t \<and> \<not> sublist ''ssue'' t
       \<and> \<not> sublist ''Created'' t \<and> \<not> sublist ''Updated'' t)"
proof -
  have t: "generateStatisticsAnswer h (r\<lparr>stargazers_count := 42, forks_count := 7\<rparr>)
       ''How many stars?'' = ''The repository has 42 stars and 7 forks''"
    by (simp add: generateStatisticsAnswer_def Number_toString_42 Number_toString_7)
  have n: "\<not> sublist ''Size'' ''The repository has 42 stars and 7 forks''"
    "\<not> sublist ''ssue'' ''The repository has 42 stars and 7 forks''"
    "\<not> sublist ''Created'' ''The repository has 42 stars and 7 forks''"
    "\<not> sublist ''Updated'' ''The repository has 42 stars and 7 forks''"
    by code_simp+
  from n show ?thesis unfolding Let_def t by simp
qed

text \<open>
  The same at the example repository.
\<close>

theorem generateStatisticsAnswer_stars_example_witness:
  "generateStatisticsAnswer example_host
       (example_repo\<lparr>stargazers_count := 42, forks_count := 7\<rparr>) ''How many stars?''
     = ''The repository has 42 stars and 7 forks''"
  using generateStatisticsAnswer_stars_example [of example_host example_repo]
  by (simp add: Let_def)

section \<open>The general answer\<close>

text \<open>
  Claim C7. For the question \<open>What is this repository about?\<close> and a repository
  with description \<open>A test tool\<close>, language \<open>Go\<close>, no homepage and no topics, the
  general answer contains \<open>A test tool\<close> and \<open>Go\<close> and has neither the homepage
  sentence nor the topics sentence. In general, for a question containing \<open>about\<close>,
  the text is the lead sentence, then the homepage clause if and only if the homepage is
  truthy, a space, then the topics clause if and only if there are topics.
\<close>

theorem generateGeneralAnswer_about_example:
  "(let t = generateGeneralAnswer
              (r\<lparr>description := Str ''A test tool'', language := Str ''Go'',
                 homepage := Null, topics := []\<rparr>) ''What is this repository about?''
    in t = ''This repository is A test tool written primarily in Go.  ''
       \<and> sublist ''A test tool'' t \<and> sublist ''Go'' t
       \<and> \<not> sublist ''You can find more information'' t \<and> \<not> sublist ''topics'' t)
   \<and> (sublist ''about'' q \<longrightarrow>
        (\<exists>hc tc.
           generateGeneralAnswer r' q
             = ''This repository is '' @ render (orElse (description r') ''a project'')
               @ '' written primarily in '' @ render (language r') @ ''. '' @ hc @ '' '' @ tc
           \<and> (if truthy (homepage r')
               then hc = ''You can find more information at '' @ render (homepage r') @ ''.''
               else hc = [])
           \<and> (if topics r' \<noteq> []
               then tc = ''It'' @ [CHR 0x27] @ ''s tagged with the following topics: ''
                         @ join (topics r') '', '' @ ''.''
               else tc = [])))"
proof -
  have ab: "String_includes ''What is this repository about?'' ''about''"
    by code_simp
  have ex: "generateGeneralAnswer
       (r\<lparr>description := Str ''A test tool'', language := Str ''Go'', homepage := Null,
          topics := []\<rparr>) ''What is this repository about?''
     = ''This repository is A test tool written primarily in Go.  ''"
    by (simp add: generateGeneralAnswer_def ab orElse_def del: String_includes.simps)
  have parts:
    "sublist ''A test tool'' ''This repository is A test tool written primarily in Go.  ''"
    "sublist ''Go'' ''This repository is A test tool written primarily in Go.  ''"
    "\<not> sublist ''You can find more information''
         ''This repository is A test tool written primarily in Go.  ''"
    "\<not> sublist ''topics'' ''This repository is A test tool written primarily in Go.  ''"
    by code_simp+
  have rule: "\<exists>hc tc.
           generateGeneralAnswer r' q
             = ''This repository is '' @ render (orElse (description r') ''a project'')
               @ '' written primarily in '' @ render (language r') @ ''. '' @ hc @ '' '' @ tc
           \<and> (if truthy (homepage r')
               then hc = ''You can find more information at '' @ render (homepage r') @ ''.''
               else hc = [])
           \<and> (if topics r' \<noteq> []
               then tc = ''It'' @ [CHR 0x27] @ ''s tagged with the following topics: ''
                         @ join (topics r') '', '' @ ''.''
               else tc = [])" if "sublist ''about'' q"
    using that by (simp add: generateGeneralAnswer_def includes_sublist)
  from parts have "let t = generateGeneralAnswer
              (r\<lparr>description := Str ''A test tool'', language := Str ''Go'',
                 homepage := Null, topics := []\<rparr>) ''What is this repository about?''
    in t = ''This repository is A test tool written primarily in Go.  ''
       \<and> sublist ''A test tool'' t \<and> sublist ''Go'' t
       \<and> \<not> sublist ''You can find more information'' t \<and> \<not> sublist ''topics'' t"
    unfolding Let_def ex by simp
  with rule show ?thesis by blast
qed

text \<open>
  The general rule at a repository that has a homepage and two topics.
\<close>

theorem generateGeneralAnswer_about_example_witness:
  "sublist ''about'' ''What is it about?''
   \<and> generateGeneralAnswer
        (example_repo\<lparr>homepage := Str ''https://o.example'', topics := [''cli'', ''go'']\<rparr>)
        ''What is it about?''
      = ''This repository is a project written primarily in Go. You can find more information at https://o.example. It'' @ [CHR 0x27] @ ''s tagged with the following topics: cli, go.''"
proof -
  have a: "sublist ''about'' ''What is it about?''" by code_simp
  have d: "render (orElse (description (example_repo\<lparr>homepage := Str ''https://o.example'',
             topics := [''cli'', ''go'']\<rparr>)) ''a project'') = ''a project''"
    "render (language (example_repo\<lparr>homepage := Str ''https://o.example'',
             topics := [''cli'', ''go'']\<rparr>)) = ''Go''"
    by code_simp+
  from a d generateGeneralAnswer_about_example
      [of example_repo "''What is it about?''"
          "example_repo\<lparr>homepage := Str ''https://o.example'', topics := [''cli'', ''go'']\<rparr>"]
  show ?thesis by auto
qed

text \<open>
  Claim C10. The general generator tests for \<open>about\<close> in the question as given,
  not in the lower-cased one. For a question without the lower-case substring
  \<open>about\<close> (it may contain \<open>About\<close> or \<open>ABOUT\<close>) that the classifier calls
  \<open>general\<close>, the short branch is taken: the text echoes the description field as
  the template renders it, which is \<open>undefined\<close> or \<open>null\<close> when the description
  is absent.
\<close>

theorem about_case_sensitive:
  assumes "\<not> sublist ''about'' q" and "analyzeQuestionType q = ''general''"
  shows "generateGeneralAnswer r q
           = ''I found some general information about the repository: '' @ render (description r)
    \<and> (\<exists>a. generateAnswer h okt r q c lg = (Inr a, lg)
          \<and> text' a = ''I found some general information about the repository: ''
                       @ render (description r))
    \<and> (description r = Undefined \<longrightarrow> generateGeneralAnswer r q
           = ''I found some general information about the repository: undefined'')
    \<and> (description r = Null \<longrightarrow> generateGeneralAnswer r q
           = ''I found some general information about the repository: null'')"
proof -
  from assms(1) have g: "generateGeneralAnswer r q
           = ''I found some general information about the repository: '' @ render (description r)"
    by (simp add: generateGeneralAnswer_def includes_sublist)
  from generateAnswer_general [OF assms(2)] g show ?thesis by simp
qed

text \<open>
  The question \<open>Tell me ABOUT it\<close> contains \<open>about\<close> once lower-cased, but not
  as given, and has no classifier keyword.
\<close>

theorem about_case_sensitive_witness:
  "sublist ''about'' (toLowerCase ''Tell me ABOUT it'')
   \<and> \<not> sublist ''about'' ''Tell me ABOUT it''
   \<and> analyzeQuestionType ''Tell me ABOUT it'' = ''general''
   \<and> generateGeneralAnswer (example_repo\<lparr>description := Undefined\<rparr>) ''Tell me ABOUT it''
       = ''I found some general information about the repository: undefined''
   \<and> generateGeneralAnswer example_repo ''Tell me ABOUT it''
       = ''I found some general information about the repository: null''"
proof -
  have l: "sublist ''about'' (toLowerCase ''Tell me ABOUT it'')" by code_simp
  have a: "\<not> sublist ''about'' ''Tell me ABOUT it''" by code_simp
  have g: "analyzeQuestionType ''Tell me ABOUT it'' = ''general''" by code_simp
  have d: "description (example_repo\<lparr>description := Undefined\<rparr>) = Undefined"
    "description example_repo = Null"
    by code_simp+
  from l a g d about_case_sensitive [OF a g, of "example_repo\<lparr>description := Undefined\<rparr>"]
    about_case_sensitive [OF a g, of example_repo]
  show ?thesis by simp
qed

section \<open>The technical answer\<close>

text \<open>
  Claim C9. When the code search succeeds, the technical generator returns: for zero
  hits, the fixed "could not find" message and no files; for one or more hits, the
  header followed by one line with path and url for each hit, and the file list with one
  entry of name, path and url for each hit.
\<close>

theorem technical_answer:
  assumes "search_code okt (strip_punctuation q @ '' repo:'' @ full_name r) 5 = Inr items"
  shows "\<exists>text files.
     findTechnicalAnswer okt r q lg
       = (Inr (text, files), lg @ [Search_code (strip_punctuation q @ '' repo:'' @ full_name r) 5])
     \<and> (items = [] \<longrightarrow>
          text = ''I could not find any relevant code files for your technical question.''
          \<and> files = [])
     \<and> (items \<noteq> [] \<longrightarrow>
          text = ''I found some relevant files that might help answer your question:''
                 @ [CHR 0x0A, CHR 0x0A]
                 @ join (map (\<lambda>item. ''- '' @ searchItem.path item @ '' ('' @ html_url item @ '')'')
                      items) [CHR 0x0A]
          \<and> files = map (\<lambda>item. \<lparr>name = searchItem.name item, path = searchItem.path item,
                                   url = html_url item\<rparr>) items
          \<and> length files = length items
          \<and> (\<forall>item \<in> set items.
                sublist (''- '' @ searchItem.path item @ '' ('' @ html_url item @ '')'') text))"
proof -
  let ?line = "\<lambda>item. ''- '' @ searchItem.path item @ '' ('' @ html_url item @ '')''"
  have mem: "sublist (?line item)
      (''I found some relevant files that might help answer your question:''
                 @ [CHR 0x0A, CHR 0x0A] @ join (map ?line items) [CHR 0x0A])"
    if "item \<in> set items" for item
  proof -
    from that have "?line item \<in> set (map ?line items)" by simp
    then have "sublist (?line item) (join (map ?line items) [CHR 0x0A])"
      by (rule join_mem_sublist)
    then obtain p t where "join (map ?line items) [CHR 0x0A] = p @ ?line item @ t"
      unfolding sublist_def by blast
    then have "''I found some relevant files that might help answer your question:''
                 @ [CHR 0x0A, CHR 0x0A] @ join (map ?line items) [CHR 0x0A]
       = (''I found some relevant files that might help answer your question:''
                 @ [CHR 0x0A, CHR 0x0A] @ p) @ ?line item @ t" by simp
    then show ?thesis unfolding sublist_def by blast
  qed
  show ?thesis
  proof (cases "items = []")
    case True
    with assms show ?thesis by (simp add: findTechnicalAnswer_def Let_def)
  next
    case False
    with assms mem show ?thesis
      by (simp add: findTechnicalAnswer_def Let_def comp_def)
  qed
qed

text \<open>
  A search with two hits and a search with none.
\<close>

theorem technical_answer_witness:
  "search_code example_octokit (strip_punctuation ''Where is main?'' @ '' repo:'' @ full_name example_repo) 5
     = Inr example_items
   \<and> example_items \<noteq> []
   \<and> fst (findTechnicalAnswer example_octokit example_repo ''Where is main?'' [])
     = Inr (''I found some relevant files that might help answer your question:''
                @ [CHR 0x0A, CHR 0x0A]
                @ ''- cmd/main.go (https://github.com/o/r/blob/m/cmd/main.go)'' @ [CHR 0x0A]
                @ ''- util.go (https://github.com/o/r/blob/m/util.go)'',
            [\<lparr>name = ''main.go'', path = ''cmd/main.go'',
                 url = ''https://github.com/o/r/blob/m/cmd/main.go''\<rparr>,
                \<lparr>name = ''util.go'', path = ''util.go'',
                 url = ''https://github.com/o/r/blob/m/util.go''\<rparr>])
   \<and> search_code (example_octokit\<lparr>search_code := (\<lambda>q n. Inr [])\<rparr>)
         (strip_punctuation ''Where is main?'' @ '' repo:'' @ full_name example_repo) 5 = Inr []
   \<and> fst (findTechnicalAnswer (example_octokit\<lparr>search_code := (\<lambda>q n. Inr [])\<rparr>)
             example_repo ''Where is main?'' [])
     = Inr (''I could not find any relevant code files for your technical question.'', [])"
proof -
  have a: "search_code example_octokit
             (strip_punctuation ''Where is main?'' @ '' repo:'' @ full_name example_repo) 5
           = Inr example_items"
    by (simp add: example_octokit_def)
  have b: "search_code (example_octokit\<lparr>search_code := (\<lambda>q n. Inr [])\<rparr>)
         (strip_punctuation ''Where is main?'' @ '' repo:'' @ full_name example_repo) 5 = Inr []"
    by simp
  have n: "example_items \<noteq> []" by (simp add: example_items_def)
  have j: "join (map (\<lambda>item. ''- '' @ searchItem.path item @ '' ('' @ html_url item @ '')'')
                      example_items) [CHR 0x0A]
     = ''- cmd/main.go (https://github.com/o/r/blob/m/cmd/main.go)'' @ [CHR 0x0A]
                @ ''- util.go (https://github.com/o/r/blob/m/util.go)''"
    by (simp add: example_items_def)
  have m: "map (\<lambda>item. \<lparr>name = searchItem.name item, path = searchItem.path item,
                                   url = html_url item\<rparr>) example_items
     = [\<lparr>name = ''main.go'', path = ''cmd/main.go'',
                 url = ''https://github.com/o/r/blob/m/cmd/main.go''\<rparr>,
                \<lparr>name = ''util.go'', path = ''util.go'',
                 url = ''https://github.com/o/r/blob/m/util.go''\<rparr>]"
    by (simp add: example_items_def)
  from a b n technical_answer [OF a, of "[]"] technical_answer [OF b, of "[]"]
  show ?thesis unfolding j m by auto
qed

section \<open>Suggestions and related files\<close>

text \<open>
  Claim C5. The suggestions are exactly those of the four fixed advisories whose
  condition holds, in the fixed order: falsy description; falsy homepage and pages
  disabled; no topics; more than 20 open issues. When the context of the request is
  absent (or empty), the suggestions of the returned answer are empty.
\<close>

theorem suggestions_subset:
  "generateSuggestions r q c =
     map snd (filter fst
       [(\<not> truthy (description r),
           ''Add a repository description to help users understand the project better''),
        (\<not> truthy (homepage r) \<and> \<not> has_pages r,
           ''Consider adding a homepage or enabling GitHub Pages''),
        (topics r = [], ''Add repository topics to improve discoverability''),
        (20 < open_issues_count r,
           ''Consider addressing some open issues to improve repository health'')])
   \<and> (\<not> truthy (context' ps) \<longrightarrow> answer_repository_question h ps us = (Inr a, lg) \<longrightarrow>
        suggestions a = [])"
proof
  show "generateSuggestions r q c =
     map snd (filter fst
       [(\<not> truthy (description r),
           ''Add a repository description to help users understand the project better''),
        (\<not> truthy (homepage r) \<and> \<not> has_pages r,
           ''Consider adding a homepage or enabling GitHub Pages''),
        (topics r = [], ''Add repository topics to improve discoverability''),
        (20 < open_issues_count r,
           ''Consider addressing some open issues to improve repository health'')])"
    by (simp add: generateSuggestions_def Let_def)
next
  show "\<not> truthy (context' ps) \<longrightarrow> answer_repository_question h ps us = (Inr a, lg) \<longrightarrow>
        suggestions a = []"
  proof (intro impI)
    assume c: "\<not> truthy (context' ps)" and ok: "answer_repository_question h ps us = (Inr a, lg)"
    from answer_repository_question_ok [OF ok] obtain r' lg1 where
      "generateAnswer h (Octokit h (githubToken us)) r' (question ps) (context' ps) lg1
           = (Inr a, lg)" by blast
    from generateAnswer_suggestions [OF this] c show "suggestions a = []" by simp
  qed
qed

text \<open>
  A repository with a homepage, no description, no topics and 21 open issues; and a
  request without context.
\<close>

theorem suggestions_subset_witness:
  "generateSuggestions (example_repo\<lparr>homepage := Str ''https://o.example'',
        open_issues_count := 21\<rparr>) ''What is it about?'' (Str ''docs'')
     = [''Add a repository description to help users understand the project better'',
        ''Add repository topics to improve discoverability'',
        ''Consider addressing some open issues to improve repository health'']
   \<and> \<not> truthy (context' (example_params ''What is it about?'' Null))
   \<and> answer_repository_question example_host (example_params ''What is it about?'' Null)
         example_settings
       = (Inr \<lparr>text' = ''This repository is a project written primarily in Go.  '',
               relatedFiles = [], suggestions = []\<rparr>,
          [Repos_get ''o'' ''r'', Repos_listLanguages ''o'' ''r'',
           Repos_getAllTopics ''o'' ''r''])"
proof -
  have c: "\<not> truthy (context' (example_params ''What is it about?'' Null))"
    by code_simp
  have conds:
    "\<not> truthy (description (example_repo\<lparr>homepage := Str ''https://o.example'',
        open_issues_count := 21\<rparr>))"
    "truthy (homepage (example_repo\<lparr>homepage := Str ''https://o.example'',
        open_issues_count := 21\<rparr>))"
    "topics (example_repo\<lparr>homepage := Str ''https://o.example'',
        open_issues_count := 21\<rparr>) = []"
    "20 < open_issues_count (example_repo\<lparr>homepage := Str ''https://o.example'',
        open_issues_count := 21\<rparr>)"
    by code_simp+
  have ok: "answer_repository_question example_host (example_params ''What is it about?'' Null)
         example_settings
       = (Inr \<lparr>text' = ''This repository is a project written primarily in Go.  '',
               relatedFiles = [], suggestions = []\<rparr>,
          [Repos_get ''o'' ''r'', Repos_listLanguages ''o'' ''r'',
           Repos_getAllTopics ''o'' ''r''])"
    by code_simp
  from c conds ok
    suggestions_subset [of "example_repo\<lparr>homepage := Str ''https://o.example'',
        open_issues_count := 21\<rparr>" "''What is it about?''" "Str ''docs''"
        "example_params ''What is it about?'' Null" example_host example_settings
        "\<lparr>text' = ''This repository is a project written primarily in Go.  '',
               relatedFiles = [], suggestions = []\<rparr>"
        "[Repos_get ''o'' ''r'', Repos_listLanguages ''o'' ''r'',
           Repos_getAllTopics ''o'' ''r'']"]
  show ?thesis by simp
qed

text \<open>
  Claim C6. The related files of a returned answer are empty unless the question is
  classified \<open>technical\<close> and the code search returned at least one hit.
\<close>

theorem relatedFiles_only_technical:
  assumes "answer_repository_question h ps us = (Inr a, lg)" and "relatedFiles a \<noteq> []"
  shows "analyzeQuestionType (question ps) = ''technical''
    \<and> (\<exists>q items. Search_code q 5 \<in> set lg
          \<and> search_code (Octokit h (githubToken us)) q 5 = Inr items
          \<and> items \<noteq> []
          \<and> length (relatedFiles a) = length items)"
proof -
  from answer_repository_question_ok [OF assms(1)] obtain r lg1 where
    g: "generateAnswer h (Octokit h (githubToken us)) r (question ps) (context' ps) lg1
           = (Inr a, lg)" by blast
  from generateAnswer_relatedFiles [OF g assms(2)] show ?thesis by auto
qed

text \<open>
  A technical question whose search has two hits.
\<close>

theorem relatedFiles_only_technical_witness:
  "answer_repository_question example_host
       (example_params ''Where is the main function?'' Null) example_settings
     = (Inr \<lparr>text' = ''I found some relevant files that might help answer your question:''
                @ [CHR 0x0A, CHR 0x0A]
                @ ''- cmd/main.go (https://github.com/o/r/blob/m/cmd/main.go)'' @ [CHR 0x0A]
                @ ''- util.go (https://github.com/o/r/blob/m/util.go)'',
             relatedFiles =
               [\<lparr>name = ''main.go'', path = ''cmd/main.go'',
                 url = ''https://github.com/o/r/blob/m/cmd/main.go''\<rparr>,
                \<lparr>name = ''util.go'', path = ''util.go'',
                 url = ''https://github.com/o/r/blob/m/util.go''\<rparr>],
             suggestions = []\<rparr>,
        [Repos_get ''o'' ''r'', Repos_listLanguages ''o'' ''r'', Repos_getAllTopics ''o'' ''r'',
         Search_code ''Where is the main function  repo:o/r'' 5])
   \<and> analyzeQuestionType (question (example_params ''Where is the main function?'' Null))
       = ''technical''"
proof -
  have ok: "answer_repository_question example_host
       (example_params ''Where is the main function?'' Null) example_settings
     = (Inr \<lparr>text' = ''I found some relevant files that might help answer your question:''
                @ [CHR 0x0A, CHR 0x0A]
                @ ''- cmd/main.go (https://github.com/o/r/blob/m/cmd/main.go)'' @ [CHR 0x0A]
                @ ''- util.go (https://github.com/o/r/blob/m/util.go)'',
             relatedFiles =
               [\<lparr>name = ''main.go'', path = ''cmd/main.go'',
                 url = ''https://github.com/o/r/blob/m/cmd/main.go''\<rparr>,
                \<lparr>name = ''util.go'', path = ''util.go'',
                 url = ''https://github.com/o/r/blob/m/util.go''\<rparr>],
             suggestions = []\<rparr>,
        [Repos_get ''o'' ''r'', Repos_listLanguages ''o'' ''r'', Repos_getAllTopics ''o'' ''r'',
         Search_code ''Where is the main function  repo:o/r'' 5])"
    by code_simp
  from ok relatedFiles_only_technical [OF ok] show ?thesis by simp
qed

section \<open>Errors of the entry point\<close>

text \<open>
  Claim C3. When the token is absent or empty, the entry point fails with the error
  \<open>GitHub token is required\<close> and has made no request to the external API.
\<close>

theorem missing_token:
  assumes "githubToken us = Undefined \<or> githubToken us = Null \<or> githubToken us = Str []"
  shows "answer_repository_question h ps us = (Inl (Error ''GitHub token is required''), [])"
  using assms by (auto simp: answer_repository_question_def)

text \<open>
  An empty token and an absent one.
\<close>

theorem missing_token_witness:
  "answer_repository_question example_host (example_params ''What is it about?'' Null)
       \<lparr>githubToken = Str []\<rparr>
     = (Inl (Error ''GitHub token is required''), [])
   \<and> answer_repository_question example_host (example_params ''What is it about?'' Null)
       \<lparr>githubToken = Undefined\<rparr>
     = (Inl (Error ''GitHub token is required''), [])"
  using missing_token [of "\<lparr>githubToken = Str []\<rparr>" example_host
          "example_params ''What is it about?'' Null"]
    missing_token [of "\<lparr>githubToken = Undefined\<rparr>" example_host
          "example_params ''What is it about?'' Null"]
  by simp

text \<open>
  Claim C4. With a non-empty token, when the repository fetch fails with an error of
  message \<open>m\<close>, or the fetch succeeds, the question is technical and the code search
  fails with an error of message \<open>m\<close>, the entry point fails with one error whose
  message is \<open>Failed to answer question: \<close> followed by \<open>m\<close>; the result is the
  error, not an answer.
\<close>

theorem wraps_failure:
  assumes "truthy (githubToken us)"
    and "fst (getRepositoryInfo (Octokit h (githubToken us)) (owner ps) (repo ps) []) = Inl (Error m)
       \<or> (\<exists>r lg. getRepositoryInfo (Octokit h (githubToken us)) (owner ps) (repo ps) [] = (Inr r, lg)
            \<and> analyzeQuestionType (question ps) = ''technical''
            \<and> search_code (Octokit h (githubToken us))
                 (strip_punctuation (question ps) @ '' repo:'' @ full_name r) 5 = Inl (Error m))"
  shows "fst (answer_repository_question h ps us)
           = Inl (Error (''Failed to answer question: '' @ m))"
  using assms(2)
proof
  assume "fst (getRepositoryInfo (Octokit h (githubToken us)) (owner ps) (repo ps) []) = Inl (Error m)"
  with assms(1) show ?thesis
    by (auto simp: answer_repository_question_def Let_def split: prod.splits sum.splits)
next
  assume "\<exists>r lg. getRepositoryInfo (Octokit h (githubToken us)) (owner ps) (repo ps) [] = (Inr r, lg)
            \<and> analyzeQuestionType (question ps) = ''technical''
            \<and> search_code (Octokit h (githubToken us))
                 (strip_punctuation (question ps) @ '' repo:'' @ full_name r) 5 = Inl (Error m)"
  then obtain r lg where
    g: "getRepositoryInfo (Octokit h (githubToken us)) (owner ps) (repo ps) [] = (Inr r, lg)"
    and t: "analyzeQuestionType (question ps) = ''technical''"
    and s: "search_code (Octokit h (githubToken us))
                 (strip_punctuation (question ps) @ '' repo:'' @ full_name r) 5 = Inl (Error m)"
    by blast
  have "fst (generateAnswer h (Octokit h (githubToken us)) r (question ps) (context' ps) lg)
          = Inl (Error m)"
    using generateAnswer_search_fails [OF t s] .
  with assms(1) g show ?thesis
    by (auto simp: answer_repository_question_def Let_def split: prod.splits sum.splits)
qed

text \<open>
  A client whose \<open>repos.get\<close> request is answered \<open>Not Found\<close>, and a client
  whose code search is answered \<open>Validation Failed\<close>.
\<close>

theorem wraps_failure_witness:
  "truthy (githubToken example_settings)
   \<and> fst (answer_repository_question notFound_host (example_params ''What is it about?'' Null)
            example_settings)
       = Inl (Error ''Failed to answer question: Not Found'')
   \<and> fst (answer_repository_question searchDown_host
            (example_params ''Where is the main function?'' Null) example_settings)
       = Inl (Error ''Failed to answer question: Validation Failed'')"
proof -
  have t: "truthy (githubToken example_settings)" by code_simp
  have f: "fst (getRepositoryInfo (Octokit notFound_host (githubToken example_settings))
                 (owner (example_params ''What is it about?'' Null))
                 (repo (example_params ''What is it about?'' Null)) [])
             = Inl (Error ''Not Found'')"
    by code_simp
  have g: "getRepositoryInfo (Octokit searchDown_host (githubToken example_settings))
                 (owner (example_params ''Where is the main function?'' Null))
                 (repo (example_params ''Where is the main function?'' Null)) []
             = (Inr example_repo,
                [Repos_get ''o'' ''r'', Repos_listLanguages ''o'' ''r'',
                 Repos_getAllTopics ''o'' ''r''])"
    by code_simp
  have c: "analyzeQuestionType (question (example_params ''Where is the main function?'' Null))
             = ''technical''"
    by code_simp
  have s: "search_code (Octokit searchDown_host (githubToken example_settings))
             (strip_punctuation (question (example_params ''Where is the main function?'' Null))
              @ '' repo:'' @ full_name example_repo) 5
           = Inl (Error ''Validation Failed'')"
    by code_simp
  from g c s have h2:
    "fst (getRepositoryInfo (Octokit searchDown_host (githubToken example_settings))
                 (owner (example_params ''Where is the main function?'' Null))
                 (repo (example_params ''Where is the main function?'' Null)) [])
       = Inl (Error ''Validation Failed'')
     \<or> (\<exists>r lg. getRepositoryInfo (Octokit searchDown_host (githubToken example_settings))
                 (owner (example_params ''Where is the main function?'' Null))
                 (repo (example_params ''Where is the main function?'' Null)) [] = (Inr r, lg)
            \<and> analyzeQuestionType (question (example_params ''Where is the main function?'' Null))
                = ''technical''
            \<and> search_code (Octokit searchDown_host (githubToken example_settings))
                 (strip_punctuation (question (example_params ''Where is the main function?'' Null))
                  @ '' repo:'' @ full_name r) 5 = Inl (Error ''Validation Failed''))"
    by blast
  from t wraps_failure [OF t disjI1, OF f] wraps_failure [OF t h2]
  show ?thesis by simp
qed

end
